theory Spec2Isabelle
  imports Complex_Main "HOL-Library.Sublist"
begin

section \<open>Numbers\<close>

text \<open>
  Every number of \<^verbatim>\<open>sketch.js\<close> is a JavaScript number, and every \<^verbatim>\<open>float\<close> of its two
  shaders is a GLSL float. Both are modelled by one type: the three special values of
  IEEE 754 and the finite values. A finite value is an exact real: rounding, overflow and
  the sign of zero are not modelled, so a finite result is the mathematical one. The
  special values follow IEEE 754: an operation on \<open>NaN\<close> is \<open>NaN\<close>, every comparison with
  \<open>NaN\<close> is false, \<open>0 / 0\<close> and \<open>\<infinity> - \<infinity>\<close> are \<open>NaN\<close>, and a nonzero finite value divided
  by zero is an infinity (the zero divisor counts as positive).
\<close>

datatype num = NaN | NInf | Fin real | PInf

fun isNaN :: "num \<Rightarrow> bool" where
  "isNaN NaN = True"
| "isNaN _ = False"

fun num_neg :: "num \<Rightarrow> num" where
  "num_neg NaN = NaN"
| "num_neg NInf = PInf"
| "num_neg (Fin a) = Fin (- a)"
| "num_neg PInf = NInf"

fun num_add :: "num \<Rightarrow> num \<Rightarrow> num" where
  "num_add (Fin a) (Fin b) = Fin (a + b)"
| "num_add NaN _ = NaN"
| "num_add _ NaN = NaN"
| "num_add PInf NInf = NaN"
| "num_add NInf PInf = NaN"
| "num_add PInf _ = PInf"
| "num_add _ PInf = PInf"
| "num_add NInf _ = NInf"
| "num_add _ NInf = NInf"

definition num_sub :: "num \<Rightarrow> num \<Rightarrow> num" where
  "num_sub a b = num_add a (num_neg b)"

text \<open>The sign of a number: \<open>1\<close>, \<open>0\<close> or \<open>-1\<close>; \<open>0\<close> for \<open>NaN\<close>.\<close>

fun num_sign :: "num \<Rightarrow> int" where
  "num_sign NaN = 0"
| "num_sign NInf = - 1"
| "num_sign (Fin a) = (if a < 0 then - 1 else if a = 0 then 0 else 1)"
| "num_sign PInf = 1"

definition signed_inf :: "int \<Rightarrow> num" where
  "signed_inf s = (if s = 0 then NaN else if s < 0 then NInf else PInf)"

fun num_mul :: "num \<Rightarrow> num \<Rightarrow> num" where
  "num_mul (Fin a) (Fin b) = Fin (a * b)"
| "num_mul NaN _ = NaN"
| "num_mul _ NaN = NaN"
| "num_mul a b = signed_inf (num_sign a * num_sign b)"

fun num_div :: "num \<Rightarrow> num \<Rightarrow> num" where
  "num_div (Fin a) (Fin b) = (if b = 0 then signed_inf (num_sign (Fin a)) else Fin (a / b))"
| "num_div NaN _ = NaN"
| "num_div _ NaN = NaN"
| "num_div (Fin a) _ = Fin 0"
| "num_div a (Fin b) = signed_inf (num_sign a * (if b < 0 then - 1 else 1))"
| "num_div _ _ = NaN"

fun num_lt :: "num \<Rightarrow> num \<Rightarrow> bool" where
  "num_lt (Fin a) (Fin b) = (a < b)"
| "num_lt NaN _ = False"
| "num_lt _ NaN = False"
| "num_lt _ NInf = False"
| "num_lt NInf _ = True"
| "num_lt PInf _ = False"
| "num_lt _ PInf = True"

definition num_gt :: "num \<Rightarrow> num \<Rightarrow> bool" where
  "num_gt a b = num_lt b a"

definition num_ge :: "num \<Rightarrow> num \<Rightarrow> bool" where
  "num_ge a b = (\<not> isNaN a \<and> \<not> isNaN b \<and> \<not> num_lt a b)"

section \<open>Strings\<close>

text \<open>
  A JavaScript string is a sequence of code units; the model keeps the code units below
  256. \<open>split_on c s\<close> is \<^verbatim>\<open>s.split(c)\<close> for a separator of one character: the pieces between
  the separators, one piece more than there are separators, so never an empty array.
\<close>

fun split_on :: "char \<Rightarrow> string \<Rightarrow> string list" where
  "split_on c [] = [[]]"
| "split_on c (x # xs) =
     (if x = c then [] # split_on c xs
      else (case split_on c xs of
              [] \<Rightarrow> [[x]]
            | l # ls \<Rightarrow> (x # l) # ls))"

text \<open>\<open>includes_str s sub\<close> is \<^verbatim>\<open>s.includes(sub)\<close>: \<open>sub\<close> occurs somewhere in \<open>s\<close>.\<close>

fun includes_str :: "string \<Rightarrow> string \<Rightarrow> bool" where
  "includes_str [] sub = (sub = [])"
| "includes_str (x # xs) sub = (prefix sub (x # xs) \<or> includes_str xs sub)"

definition end_header :: string where
  "end_header = ''end_header''"

definition newline :: char where
  "newline = CHR 0x0A"

definition space :: char where
  "space = CHR '' ''"

subsection \<open>parseFloat\<close>

text \<open>
  The built-in \<^verbatim>\<open>parseFloat\<close> of ECMAScript: leading white space is dropped, then the
  longest prefix that is a decimal literal (\<^verbatim>\<open>Infinity\<close>, or digits with an optional
  fraction and an optional exponent, after an optional sign) gives the value; with no such
  prefix the result is \<open>NaN\<close>. The value is the exact decimal one.
\<close>

definition digit_of :: "char \<Rightarrow> nat option" where
  "digit_of c = map_of (zip ''0123456789'' [0 ..< 10]) c"

definition is_digit :: "char \<Rightarrow> bool" where
  "is_digit c = (digit_of c \<noteq> None)"

definition is_space :: "char \<Rightarrow> bool" where
  "is_space c = (c = CHR 0x09 \<or> c = CHR 0x0A \<or> c = CHR 0x0B \<or> c = CHR 0x0C \<or> c = CHR 0x0D
     \<or> c = CHR 0x20 \<or> c = CHR 0xA0)"

text \<open>The value of a string of decimal digits; the empty string counts 0.\<close>

definition digits_val :: "string \<Rightarrow> nat" where
  "digits_val ds = foldl (\<lambda>n c. 10 * n + (case digit_of c of None \<Rightarrow> 0 | Some d \<Rightarrow> d)) 0 ds"

text \<open>The exponent part at the head of a string (\<^verbatim>\<open>e\<close> or \<^verbatim>\<open>E\<close>, an optional sign, at least
  one digit); 0 when there is none.\<close>

definition exponent_part :: "string \<Rightarrow> int" where
  "exponent_part s =
     (case s of
        [] \<Rightarrow> 0
      | e # r \<Rightarrow>
          if e = CHR ''e'' \<or> e = CHR ''E'' then
            (case r of
               [] \<Rightarrow> 0
             | c # r2 \<Rightarrow>
                 if c = CHR ''-'' then
                   (if takeWhile is_digit r2 = [] then 0
                    else - int (digits_val (takeWhile is_digit r2)))
                 else if c = CHR ''+'' then int (digits_val (takeWhile is_digit r2))
                 else int (digits_val (takeWhile is_digit r)))
          else 0)"

definition scale10 :: "real \<Rightarrow> int \<Rightarrow> real" where
  "scale10 v e = (if 0 \<le> e then v * 10 ^ nat e else v / 10 ^ nat (- e))"

definition unsigned_literal :: "string \<Rightarrow> num" where
  "unsigned_literal s =
     (if prefix ''Infinity'' s then PInf
      else
        let ip = takeWhile is_digit s;
            r1 = dropWhile is_digit s;
            dot = (r1 \<noteq> [] \<and> hd r1 = CHR ''.'');
            fp = (if dot then takeWhile is_digit (tl r1) else []);
            r2 = (if dot then dropWhile is_digit (tl r1) else r1)
        in if ip = [] \<and> fp = [] then NaN
           else Fin (scale10 (real (digits_val ip) + real (digits_val fp) / 10 ^ length fp)
                       (exponent_part r2)))"

definition parseFloat :: "string \<Rightarrow> num" where
  "parseFloat s =
     (case dropWhile is_space s of
        [] \<Rightarrow> NaN
      | c # r \<Rightarrow>
          if c = CHR ''-'' then num_neg (unsigned_literal r)
          else if c = CHR ''+'' then unsigned_literal r
          else unsigned_literal (c # r))"

section \<open>The point cloud loader\<close>

text \<open>
  The globals \<^verbatim>\<open>vertices\<close>, \<^verbatim>\<open>colors\<close>, \<^verbatim>\<open>minX\<close>, \<^verbatim>\<open>maxX\<close>, \<^verbatim>\<open>minZ\<close>, \<^verbatim>\<open>maxZ\<close> that
  \<^verbatim>\<open>parsePointCloud\<close> updates, and their initial values.
\<close>

record cloud =
  vertices :: "num list"
  colors :: "num list"
  minX :: num
  maxX :: num
  minZ :: num
  maxZ :: num

definition init_cloud :: cloud where
  "init_cloud = \<lparr>vertices = [], colors = [], minX = PInf, maxX = NInf, minZ = PInf, maxZ = NInf\<rparr>"

text \<open>\<^verbatim>\<open>parseFloat(temp[k])\<close>: an index past the end reads \<^verbatim>\<open>undefined\<close>, whose string
  has no numeric prefix.\<close>

definition parsed_field :: "string list \<Rightarrow> nat \<Rightarrow> num" where
  "parsed_field temp k = (if k < length temp then parseFloat (temp ! k) else NaN)"

text \<open>The part of the loop body that runs on a line after the header.\<close>

definition add_point :: "num \<Rightarrow> num \<Rightarrow> num \<Rightarrow> num \<Rightarrow> cloud \<Rightarrow> string \<Rightarrow> cloud" where
  "add_point scale xAdd yAdd zAdd st line =
     (let temp = split_on space line;
          x = parsed_field temp 0;
          y = num_neg (parsed_field temp 1);
          z = parsed_field temp 2;
          r = num_div (parsed_field temp 3) (Fin 255);
          g = num_div (parsed_field temp 4) (Fin 255);
          b = num_div (parsed_field temp 5) (Fin 255)
      in if isNaN x \<or> isNaN y \<or> isNaN z then st
         else
           let x = num_add (num_mul x scale) xAdd;
               y = num_add (num_mul y scale) yAdd;
               z = num_add (num_mul z scale) zAdd
           in \<lparr>vertices = vertices st @ [x, y, z],
               colors = colors st @ [r, g, b],
               minX = (if num_lt x (minX st) then x else minX st),
               maxX = (if num_gt x (maxX st) then x else maxX st),
               minZ = (if num_lt z (minZ st) then z else minZ st),
               maxZ = (if num_gt z (maxZ st) then z else maxZ st)\<rparr>)"

text \<open>One iteration of the loop: the state is the flag \<^verbatim>\<open>header\<close> and the globals.\<close>

definition parse_line :: "num \<Rightarrow> num \<Rightarrow> num \<Rightarrow> num \<Rightarrow> bool \<times> cloud \<Rightarrow> string \<Rightarrow> bool \<times> cloud" where
  "parse_line scale xAdd yAdd zAdd hs line =
     (if includes_str line end_header then (False, snd hs)
      else if \<not> fst hs then (fst hs, add_point scale xAdd yAdd zAdd (snd hs) line)
      else hs)"

text \<open>The loop runs over the indices \<open>0 \<le> i < lines.length - 1\<close>: every line but the last.\<close>

definition parsePointCloud :: "string \<Rightarrow> num \<Rightarrow> num \<Rightarrow> num \<Rightarrow> num \<Rightarrow> cloud \<Rightarrow> cloud" where
  "parsePointCloud data scale xAdd yAdd zAdd st =
     snd (foldl (parse_line scale xAdd yAdd zAdd) (True, st) (butlast (split_on newline data)))"

subsection \<open>Input texts and expected results\<close>

text \<open>A text made of lines, each terminated by a newline.\<close>

definition unlines :: "string list \<Rightarrow> string" where
  "unlines ls = concat (map (\<lambda>l. l @ [newline]) ls)"

fun is_fin :: "num \<Rightarrow> bool" where
  "is_fin (Fin _) = True"
| "is_fin _ = False"


text \<open>A data line with at least 6 numeric fields: split at single spaces, it has at least
  six pieces and each of the first six parses to a finite number.\<close>

definition numeric_line :: "string \<Rightarrow> bool" where
  "numeric_line l =
     (6 \<le> length (split_on space l) \<and>
      list_all (\<lambda>f. is_fin (parseFloat f)) (take 6 (split_on space l)))"


text \<open>A line one of whose first three parsed fields is not a number.\<close>

definition malformed :: "string \<Rightarrow> bool" where
  "malformed l =
     (isNaN (parsed_field (split_on space l) 0) \<or> isNaN (parsed_field (split_on space l) 1)
      \<or> isNaN (parsed_field (split_on space l) 2))"







section \<open>The palette transition\<close>

text \<open>A palette is an object of three arrays of three numbers.\<close>

record palette =
  c1 :: "num list"
  c2 :: "num list"
  c3 :: "num list"

definition palettes :: "palette list" where
  "palettes =
     [\<lparr>c1 = [Fin 1.0, Fin 0.8, Fin 0.9], c2 = [Fin 1.0, Fin 0.8, Fin 0.9],
       c3 = [Fin 1.0, Fin 0.8, Fin 0.9]\<rparr>,
      \<lparr>c1 = [Fin 0.4, Fin 0.6, Fin 1.0], c2 = [Fin 0.4, Fin 0.7, Fin 1.0],
       c3 = [Fin 0.4, Fin 0.7, Fin 1.0]\<rparr>,
      \<lparr>c1 = [Fin 1.0, Fin 0.9, Fin 0.6], c2 = [Fin 1.0, Fin 0.9, Fin 0.6],
       c3 = [Fin 1.0, Fin 0.9, Fin 0.6]\<rparr>,
      \<lparr>c1 = [Fin 0.8, Fin 0.9, Fin 1.0], c2 = [Fin 0.8, Fin 0.9, Fin 1.0],
       c3 = [Fin 0.8, Fin 0.9, Fin 1.0]\<rparr>]"

text \<open>\<^verbatim>\<open>palettes[i]\<close>: an index past the end reads \<^verbatim>\<open>undefined\<close>, here \<open>None\<close>.\<close>

definition palette_at :: "nat \<Rightarrow> palette option" where
  "palette_at i = (if i < length palettes then Some (palettes ! i) else None)"

text \<open>The globals of the transition and their initial values.\<close>

record transition =
  currentPaletteIndex :: nat
  targetPaletteIndex :: nat
  transitionProgress :: num
  startPalette :: "palette option"

definition init_transition :: transition where
  "init_transition =
     \<lparr>currentPaletteIndex = 0, targetPaletteIndex = 0, transitionProgress = Fin 1,
      startPalette = palette_at 0\<rparr>"

text \<open>
  Modelled from the spec: \<^verbatim>\<open>lerp\<close> is a function of the p5.js library, which is not part of
  the sources. The specification gives \<open>effective = start + (target - start) * progress\<close>;
  the library computes \<^verbatim>\<open>amt * (stop - start) + start\<close>.
\<close>

definition lerp :: "num \<Rightarrow> num \<Rightarrow> num \<Rightarrow> num" where
  "lerp start stop amt = num_add (num_mul amt (num_sub stop start)) start"

text \<open>\<^verbatim>\<open>a.map((v, i) => lerp(v, b[i], t))\<close>: an index past the end of \<open>b\<close> reads
  \<^verbatim>\<open>undefined\<close>, which is \<open>NaN\<close> in arithmetic.\<close>

definition lerpArray :: "num list \<Rightarrow> num list \<Rightarrow> num \<Rightarrow> num list" where
  "lerpArray a b t =
     map (\<lambda>i. lerp (a ! i) (if i < length b then b ! i else NaN) t) [0..<length a]"

definition mousePressed :: "transition \<Rightarrow> transition" where
  "mousePressed s =
     (if num_ge (transitionProgress s) (Fin 1) then
        s\<lparr>startPalette := palette_at (currentPaletteIndex s),
          targetPaletteIndex := (currentPaletteIndex s + 1) mod length palettes,
          transitionProgress := Fin 0\<rparr>
      else s)"

definition touchStarted :: "transition \<Rightarrow> transition" where
  "touchStarted s = mousePressed s"

subsection \<open>The frame driver\<close>

text \<open>The first part of \<^verbatim>\<open>draw\<close> on the transition: one step of 0.01, clamped at 1, and the
  commit of the target index when 1 is reached.\<close>

definition tick :: "transition \<Rightarrow> transition" where
  "tick s =
     (if num_lt (transitionProgress s) (Fin 1) then
        (let p = num_add (transitionProgress s) (Fin 0.01)
         in if num_ge p (Fin 1) then
              s\<lparr>transitionProgress := Fin 1, currentPaletteIndex := targetPaletteIndex s\<rparr>
            else s\<lparr>transitionProgress := p\<rparr>)
      else s)"

datatype error = TypeError

text \<open>The palette \<^verbatim>\<open>cp\<close> sent to the shader; reading \<^verbatim>\<open>.c1\<close> of \<^verbatim>\<open>undefined\<close> throws.\<close>

definition effectivePalette :: "transition \<Rightarrow> error + palette" where
  "effectivePalette s =
     (case startPalette s of
        None \<Rightarrow> Inl TypeError
      | Some sp \<Rightarrow>
          (case palette_at (targetPaletteIndex s) of
             None \<Rightarrow> Inl TypeError
           | Some tp \<Rightarrow>
               Inr \<lparr>c1 = lerpArray (c1 sp) (c1 tp) (transitionProgress s),
                    c2 = lerpArray (c2 sp) (c2 tp) (transitionProgress s),
                    c3 = lerpArray (c3 sp) (c3 tp) (transitionProgress s)\<rparr>))"

text \<open>
  What one call of \<^verbatim>\<open>draw\<close> hands to the graphics context: the time, the three gradient
  colours, and the number of points of the \<^verbatim>\<open>drawArrays\<close> call, \<open>None\<close> when \<^verbatim>\<open>draw\<close>
  returns before it. The buffer bindings and the two matrices belong to the graphics
  context and are not modelled.
\<close>

record frame =
  sent_time :: num
  sent_palette :: palette
  drawArrays :: "num option"

definition draw :: "cloud \<Rightarrow> nat \<Rightarrow> transition \<Rightarrow> transition \<times> (error + frame)" where
  "draw cl frameCount s =
     (let s' = tick s
      in (s', case effectivePalette s' of
                Inl e \<Rightarrow> Inl e
              | Inr cp \<Rightarrow>
                  Inr \<lparr>sent_time = Fin (real frameCount),
                       sent_palette = cp,
                       drawArrays =
                         (if length (vertices cl) = 0 then None
                          else Some (num_div (Fin (real (length (vertices cl)))) (Fin 3)))\<rparr>))"

text \<open>The invariant of the transition: both indices are indices of \<open>palettes\<close> and the start
  palette is defined.\<close>

definition transition_ok :: "transition \<Rightarrow> bool" where
  "transition_ok s =
     (currentPaletteIndex s < length palettes \<and> targetPaletteIndex s < length palettes
      \<and> startPalette s \<noteq> None)"

section \<open>The shaders\<close>

type_synonym vec3 = "num \<times> num \<times> num"
type_synonym vec4 = "num \<times> num \<times> num \<times> num"




definition glsl_mix :: "num \<Rightarrow> num \<Rightarrow> num \<Rightarrow> num" where
  "glsl_mix x y a = num_add (num_mul x (num_sub (Fin 1) a)) (num_mul y a)"







subsection \<open>The vertex shader\<close>




subsection \<open>The fragment shader\<close>

definition brightnessFactor :: num where
  "brightnessFactor = Fin 1.5"

definition mix3 :: "vec3 \<Rightarrow> vec3 \<Rightarrow> num \<Rightarrow> vec3" where
  "mix3 a b t =
     (case a of (ar, ag, ab) \<Rightarrow> case b of (br, bg, bb) \<Rightarrow>
        (glsl_mix ar br t, glsl_mix ag bg t, glsl_mix ab bb t))"

text \<open>The result is \<^verbatim>\<open>gl_FragColor\<close>.\<close>

definition frag_main :: "vec3 \<Rightarrow> vec3 \<Rightarrow> vec3 \<Rightarrow> vec4 \<Rightarrow> num \<Rightarrow> vec4" where
  "frag_main uColor1 uColor2 uColor3 vCol vt =
     (case vCol of (nr, ng, nb, na) \<Rightarrow>
        let gradColor =
              (if num_lt vt (Fin 0.5) then mix3 uColor1 uColor2 (num_div vt (Fin 0.5))
               else mix3 uColor2 uColor3 (num_div (num_sub vt (Fin 0.5)) (Fin 0.5)))
        in case gradColor of (gr, gg, gb) \<Rightarrow>
             (num_mul (num_mul nr gr) brightnessFactor,
              num_mul (num_mul ng gg) brightnessFactor,
              num_mul (num_mul nb gb) brightnessFactor,
              Fin 1.0))"

text \<open>The interpolation of the specification, \<open>lerp(a, b, u) = a + (b - a) * u\<close>, and its
  two-segment gradient over the three stops, on reals.\<close>

definition spec_lerp :: "real \<Rightarrow> real \<Rightarrow> real \<Rightarrow> real" where
  "spec_lerp a b u = a + (b - a) * u"

definition spec_grad :: "real \<Rightarrow> real \<Rightarrow> real \<Rightarrow> real \<Rightarrow> real" where
  "spec_grad a b c t =
     (if t < 0.5 then spec_lerp a b (t / 0.5) else spec_lerp b c ((t - 0.5) / 0.5))"



section \<open>Properties of the string functions and of the loop\<close>

lemma split_on_not_Nil: "split_on c s \<noteq> []"
  by (induction s) (auto split: list.splits)

lemma split_on_no_sep: "c \<notin> set l \<Longrightarrow> split_on c l = [l]"
  by (induction l) auto

lemma split_on_line: "c \<notin> set l \<Longrightarrow> split_on c (l @ c # r) = l # split_on c r"
  by (induction l) (auto split: list.splits)

lemma split_on_last: "c \<notin> set l \<Longrightarrow> split_on c (a @ c # l) = split_on c a @ [l]"
proof (induction a)
  case Nil
  then show ?case by (simp add: split_on_no_sep)
next
  case (Cons x a)
  then show ?case
    by (cases "split_on c a") (auto simp: split_on_not_Nil)
qed

lemma unlines_Cons: "unlines (l # ls) = l @ newline # unlines ls"
  by (simp add: unlines_def)

lemma split_on_unlines:
  "\<forall>l\<in>set ls. newline \<notin> set l \<Longrightarrow> newline \<notin> set r \<Longrightarrow>
   split_on newline (unlines ls @ r) = ls @ [r]"
proof (induction ls)
  case Nil
  then show ?case by (simp add: unlines_def split_on_no_sep)
next
  case (Cons l ls)
  then show ?case by (simp add: unlines_Cons split_on_line)
qed

lemma parse_unlines:
  assumes "\<forall>l\<in>set ls. newline \<notin> set l" and "newline \<notin> set r"
  shows "parsePointCloud (unlines ls @ r) sc xa ya za st =
         snd (foldl (parse_line sc xa ya za) (True, st) ls)"
  using assms by (simp add: parsePointCloud_def split_on_unlines)

lemma parse_line_flag:
  "fst (foldl (parse_line sc xa ya za) (b, st) ls) =
   (b \<and> (\<forall>l\<in>set ls. \<not> includes_str l end_header))"
proof (induction ls arbitrary: b st)
  case Nil
  then show ?case by simp
next
  case (Cons l ls)
  show ?case
  proof (cases "includes_str l end_header")
    case True
    then show ?thesis using Cons [of False st] by (simp add: parse_line_def)
  next
    case False
    then show ?thesis
      using Cons [of b "snd (parse_line sc xa ya za (b, st) l)"]
      by (cases b) (simp_all add: parse_line_def)
  qed
qed

lemma parse_header_lines:
  "\<forall>h\<in>set hs. \<not> includes_str h end_header \<Longrightarrow>
   foldl (parse_line sc xa ya za) (True, st) hs = (True, st)"
  by (induction hs) (simp_all add: parse_line_def)

lemma isNaN_neg: "isNaN (num_neg v) = isNaN v"
  by (cases v) simp_all

lemma parse_line_malformed:
  "malformed l \<Longrightarrow> parse_line sc xa ya za (False, c) l = (False, c)"
  by (simp add: parse_line_def add_point_def malformed_def Let_def isNaN_neg)













lemma transition_ok_tick: "transition_ok s \<Longrightarrow> transition_ok (tick s)"
  by (simp add: transition_ok_def tick_def Let_def)

lemma effectivePalette_ok: "transition_ok s \<Longrightarrow> \<exists>cp. effectivePalette s = Inr cp"
  by (auto simp: transition_ok_def effectivePalette_def palette_at_def split: option.splits)

section \<open>The claims about the loader\<close>




text \<open>
  C3. The loader never examines the last piece of the text split at newlines: a text
  without a newline changes nothing, and the result for a text is the result for the text
  cut after its last newline. So a data line that ends the text without a newline yields
  no point and leaves the extent as it is.
\<close>

theorem final_line_ignored:
  assumes "newline \<notin> set l"
  shows "parsePointCloud l scale xAdd yAdd zAdd st = st \<and>
         parsePointCloud (pre @ newline # l) scale xAdd yAdd zAdd st =
           parsePointCloud (pre @ [newline]) scale xAdd yAdd zAdd st"
proof -
  have "split_on newline (pre @ newline # l) = split_on newline pre @ [l]"
    using assms by (rule split_on_last)
  moreover have "split_on newline (pre @ [newline]) = split_on newline pre @ [[]]"
    using split_on_last [of newline "[]" pre] by simp
  ultimately show ?thesis
    using assms by (simp add: parsePointCloud_def split_on_no_sep)
qed

theorem final_line_ignored_witness:
  "newline \<notin> set ''7 8 9 255 255 255'' \<and> numeric_line ''7 8 9 255 255 255'' \<and>
   parsePointCloud (''end_header\<newline>1 2 3 0 0 0'' @ newline # ''7 8 9 255 255 255'')
     (Fin 1) (Fin 0) (Fin 0) (Fin 0) init_cloud =
   \<lparr>vertices = [Fin 1, Fin (- 2), Fin 3], colors = [Fin 0, Fin 0, Fin 0],
    minX = Fin 1, maxX = Fin 1, minZ = Fin 3, maxZ = Fin 3\<rparr>"
proof -
  have h: "newline \<notin> set ''7 8 9 255 255 255''" by code_simp
  have n: "numeric_line ''7 8 9 255 255 255''" by code_simp
  have r: "parsePointCloud (''end_header\<newline>1 2 3 0 0 0'' @ [newline])
     (Fin 1) (Fin 0) (Fin 0) (Fin 0) init_cloud =
   \<lparr>vertices = [Fin 1, Fin (- 2), Fin 3], colors = [Fin 0, Fin 0, Fin 0],
    minX = Fin 1, maxX = Fin 1, minZ = Fin 3, maxZ = Fin 3\<rparr>" by code_simp
  from final_line_ignored [OF h, of "Fin 1" "Fin 0" "Fin 0" "Fin 0" init_cloud
      "''end_header\<newline>1 2 3 0 0 0''"] h n r
  show ?thesis by simp
qed

text \<open>
  C7. A line after the sentinel one of whose first three parsed fields is not a number is
  skipped wherever it stands among the examined lines: the loader gives the same points
  and the same extent as for the text without the line. The loader has no error result.
\<close>

theorem malformed_line_skipped:
  assumes after: "\<exists>h\<in>set pre. includes_str h end_header"
    and bad: "malformed bad"
    and nl: "\<forall>l\<in>set (pre @ bad # post). newline \<notin> set l"
    and nr: "newline \<notin> set rest"
  shows "parsePointCloud (unlines (pre @ bad # post) @ rest) scale xAdd yAdd zAdd st =
         parsePointCloud (unlines (pre @ post) @ rest) scale xAdd yAdd zAdd st"
proof -
  let ?step = "parse_line scale xAdd yAdd zAdd"
  obtain b c where pre: "foldl ?step (True, st) pre = (b, c)"
    by (cases "foldl ?step (True, st) pre")
  have "b = fst (foldl ?step (True, st) pre)" by (simp add: pre)
  with after have b: "b = False" by (simp add: parse_line_flag)
  from nl have nl': "\<forall>l\<in>set (pre @ post). newline \<notin> set l" by simp
  have "parsePointCloud (unlines (pre @ bad # post) @ rest) scale xAdd yAdd zAdd st =
        snd (foldl ?step (?step (b, c) bad) post)"
    by (simp add: parse_unlines [OF nl nr] pre)
  also have "?step (b, c) bad = (b, c)"
    using bad by (simp add: b parse_line_malformed)
  also have "snd (foldl ?step (b, c) post) =
        parsePointCloud (unlines (pre @ post) @ rest) scale xAdd yAdd zAdd st"
    by (simp add: parse_unlines [OF nl' nr] pre)
  finally show ?thesis .
qed

theorem malformed_line_skipped_witness:
  "malformed ''abc 5 6 255 255 255'' \<and>
   parsePointCloud
     (unlines ([''ply'', ''end_header'', ''1 2 3 0 0 0''] @ ''abc 5 6 255 255 255''
        # [''7 8 9 51 51 51'']) @ [])
     (Fin 1) (Fin 0) (Fin 0) (Fin 0) init_cloud =
   \<lparr>vertices = [Fin 1, Fin (- 2), Fin 3, Fin 7, Fin (- 8), Fin 9],
    colors = [Fin 0, Fin 0, Fin 0, Fin (1 / 5), Fin (1 / 5), Fin (1 / 5)],
    minX = Fin 1, maxX = Fin 7, minZ = Fin 3, maxZ = Fin 9\<rparr>"
proof -
  let ?pre = "[''ply'', ''end_header'', ''1 2 3 0 0 0'']" and ?bad = "''abc 5 6 255 255 255''"
  let ?post = "[''7 8 9 51 51 51'']"
  have h1: "\<exists>h\<in>set ?pre. includes_str h end_header" by code_simp
  have h2: "malformed ?bad" by code_simp
  have h3: "\<forall>l\<in>set (?pre @ ?bad # ?post). newline \<notin> set l" by code_simp
  have h4: "newline \<notin> set []" by simp
  have r: "parsePointCloud (unlines (?pre @ ?post) @ []) (Fin 1) (Fin 0) (Fin 0) (Fin 0)
      init_cloud =
   \<lparr>vertices = [Fin 1, Fin (- 2), Fin 3, Fin 7, Fin (- 8), Fin 9],
    colors = [Fin 0, Fin 0, Fin 0, Fin (1 / 5), Fin (1 / 5), Fin (1 / 5)],
    minX = Fin 1, maxX = Fin 7, minZ = Fin 3, maxZ = Fin 9\<rparr>" by code_simp
  from malformed_line_skipped [OF h1 h2 h3 h4, of "Fin 1" "Fin 0" "Fin 0" "Fin 0" init_cloud]
    h2 r
  show ?thesis by simp
qed

text \<open>
  C10. For the empty text and for every text that holds only a header (header lines
  without the sentinel marker, then one last line, the sentinel or not, with or without a
  newline after it), the loader leaves the initial globals as they are: no point, and
  the extent \<open>{minX = +\<infinity>, maxX = -\<infinity>, minZ = +\<infinity>, maxZ = -\<infinity>}\<close>. On such a cloud a call of
  \<^verbatim>\<open>draw\<close> in a state of the transition that satisfies its invariant throws nothing and
  returns before \<^verbatim>\<open>drawArrays\<close>.
\<close>

theorem header_only_empty_cloud:
  assumes hdr: "\<forall>h\<in>set hs. \<not> includes_str h end_header"
    and nl: "\<forall>l\<in>set (hs @ [s]). newline \<notin> set l"
    and data: "data = [] \<or> data = unlines hs @ s \<or> data = unlines (hs @ [s])"
    and ok: "transition_ok tr"
  shows "parsePointCloud data scale xAdd yAdd zAdd init_cloud =
           \<lparr>vertices = [], colors = [], minX = PInf, maxX = NInf, minZ = PInf, maxZ = NInf\<rparr>
         \<and> (\<exists>fr. snd (draw (parsePointCloud data scale xAdd yAdd zAdd init_cloud) frameCount tr)
                   = Inr fr \<and> drawArrays fr = None)"
proof -
  let ?step = "parse_line scale xAdd yAdd zAdd"
  from nl have nl1: "\<forall>l\<in>set hs. newline \<notin> set l" and nl2: "newline \<notin> set s" by simp_all
  have last: "snd (?step (True, init_cloud) s) = init_cloud"
    by (simp add: parse_line_def)
  have "parsePointCloud data scale xAdd yAdd zAdd init_cloud = init_cloud"
    using data
  proof (elim disjE)
    assume "data = []"
    then show ?thesis by (simp add: parsePointCloud_def)
  next
    assume "data = unlines hs @ s"
    then show ?thesis
      by (simp add: parse_unlines [OF nl1 nl2] parse_header_lines [OF hdr])
  next
    assume "data = unlines (hs @ [s])"
    then show ?thesis
      using parse_unlines [OF nl, of "[]"]
      by (simp add: parse_header_lines [OF hdr] last)
  qed
  moreover obtain cp where "effectivePalette (tick tr) = Inr cp"
    using effectivePalette_ok [OF transition_ok_tick [OF ok]] by blast
  ultimately show ?thesis
    by (simp add: draw_def Let_def init_cloud_def)
qed

theorem header_only_empty_cloud_witness:
  "parsePointCloud ''ply\<newline>format ascii 1.0\<newline>end_header\<newline>''
     (Fin 2500) (Fin 0) (Fin 500) (Fin 0) init_cloud =
     \<lparr>vertices = [], colors = [], minX = PInf, maxX = NInf, minZ = PInf, maxZ = NInf\<rparr>
   \<and> (\<exists>fr. snd (draw (parsePointCloud ''ply\<newline>format ascii 1.0\<newline>end_header\<newline>''
              (Fin 2500) (Fin 0) (Fin 500) (Fin 0) init_cloud) 1 init_transition) = Inr fr
          \<and> drawArrays fr = None)"
proof -
  let ?hs = "[''ply'', ''format ascii 1.0'']" and ?s = "''end_header''"
  let ?data = "''ply\<newline>format ascii 1.0\<newline>end_header\<newline>''"
  have h1: "\<forall>h\<in>set ?hs. \<not> includes_str h end_header" by code_simp
  have h2: "\<forall>l\<in>set (?hs @ [?s]). newline \<notin> set l" by code_simp
  have "?data = unlines (?hs @ [?s])" by code_simp
  then have h3: "?data = [] \<or> ?data = unlines ?hs @ ?s \<or> ?data = unlines (?hs @ [?s])"
    by (intro disjI2)
  have h4: "transition_ok init_transition" by code_simp
  from header_only_empty_cloud [OF h1 h2 h3 h4] show ?thesis .
qed

section \<open>The claims about the palette transition\<close>

lemma length_palettes: "length palettes = 4"
  by (simp add: palettes_def)







text \<open>
  C5. While the progress is below 1, \<^verbatim>\<open>mousePressed\<close> (and so \<^verbatim>\<open>touchStarted\<close>) changes
  nothing. When the progress is at least 1, it stores \<^verbatim>\<open>palettes[currentPaletteIndex]\<close> as
  the start palette, sets the target index to \<open>(currentPaletteIndex + 1) mod 4\<close>, 4 being
  the number of palettes, and sets the progress to 0.
\<close>

theorem advance_guarded:
  "length palettes = 4 \<and> touchStarted s = mousePressed s \<and>
   (num_lt (transitionProgress s) (Fin 1) \<longrightarrow> mousePressed s = s) \<and>
   (num_ge (transitionProgress s) (Fin 1) \<longrightarrow>
      mousePressed s =
        s\<lparr>startPalette := palette_at (currentPaletteIndex s),
          targetPaletteIndex := (currentPaletteIndex s + 1) mod 4,
          transitionProgress := Fin 0\<rparr>) \<and>
   (currentPaletteIndex s < 4 \<longrightarrow>
      palette_at (currentPaletteIndex s) = Some (palettes ! currentPaletteIndex s))"
  by (cases "transitionProgress s")
    (simp_all add: mousePressed_def touchStarted_def num_ge_def length_palettes palette_at_def)

theorem advance_guarded_witness:
  "num_ge (transitionProgress init_transition) (Fin 1) \<and>
   mousePressed init_transition =
     \<lparr>currentPaletteIndex = 0, targetPaletteIndex = 1, transitionProgress = Fin 0,
      startPalette = Some (palettes ! 0)\<rparr> \<and>
   num_lt (transitionProgress (mousePressed init_transition)) (Fin 1) \<and>
   mousePressed (mousePressed init_transition) = mousePressed init_transition"
proof -
  have a: "num_ge (transitionProgress init_transition) (Fin 1)" by code_simp
  have b: "num_lt (transitionProgress (mousePressed init_transition)) (Fin 1)" by code_simp
  have c: "currentPaletteIndex init_transition < 4" by code_simp
  have d: "init_transition\<lparr>startPalette := Some (palettes ! currentPaletteIndex init_transition),
          targetPaletteIndex := (currentPaletteIndex init_transition + 1) mod 4,
          transitionProgress := Fin 0\<rparr> =
     \<lparr>currentPaletteIndex = 0, targetPaletteIndex = 1, transitionProgress = Fin 0,
      startPalette = Some (palettes ! 0)\<rparr>"
    by (simp add: init_transition_def)
  from advance_guarded [of init_transition] advance_guarded [of "mousePressed init_transition"]
    a b c d
  show ?thesis by simp
qed



section \<open>The claims about the shaders\<close>
















lemma mix_Fin: "glsl_mix (Fin a) (Fin b) (Fin u) = Fin (spec_lerp a b u)"
  by (simp add: glsl_mix_def num_sub_def spec_lerp_def algebra_simps)

text \<open>
  C9. For every finite gradient parameter \<open>t\<close>, finite palette and finite native colour the
  fragment shader outputs, per component, the native colour times the gradient times 1.5,
  where the gradient is \<open>lerp (c1, c2, t / 0.5)\<close> for \<open>t < 0.5\<close> and
  \<open>lerp (c2, c3, (t - 0.5) / 0.5)\<close> otherwise; nothing clamps the product (a white point
  under a white palette comes out as 1.5); and the alpha component is the constant 1.
\<close>

theorem shading_formula:
  "frag_main (Fin a1, Fin a2, Fin a3) (Fin b1, Fin b2, Fin b3) (Fin d1, Fin d2, Fin d3)
     (Fin nr, Fin ng, Fin nb, na) (Fin t) =
     (Fin (nr * spec_grad a1 b1 d1 t * 1.5),
      Fin (ng * spec_grad a2 b2 d2 t * 1.5),
      Fin (nb * spec_grad a3 b3 d3 t * 1.5),
      Fin 1)
   \<and> frag_main (Fin 1, Fin 1, Fin 1) (Fin 1, Fin 1, Fin 1) (Fin 1, Fin 1, Fin 1)
       (Fin 1, Fin 1, Fin 1, Fin 1) (Fin t) = (Fin 1.5, Fin 1.5, Fin 1.5, Fin 1)"
  by (simp add: frag_main_def mix3_def Let_def mix_Fin num_sub_def brightnessFactor_def
      spec_grad_def spec_lerp_def)

end
